theory Spec2Isabelle
  imports Complex_Main
begin

section \<open>The training loop of Part 3 - Training Neural Networks\<close>

text \<open>
  The notebook's loop (code cell "Training for real"):
  \<^verbatim>\<open>
  epochs = 3
  print_every = 40
  steps = 0
  for e in range(epochs):
      running_loss = 0
      for images, labels in iter(trainloader):
          steps += 1
          images.resize_(images.size()[0], 784)
          optimizer.zero_grad()
          output = model.forward(images)
          loss = criterion(output, labels)
          loss.backward()
          optimizer.step()
          running_loss += loss.item()
          if steps % print_every == 0:
              print("Epoch: {}/{}... ".format(e+1, epochs),
                    "Loss: {:.4f}".format(running_loss/print_every))
              running_loss = 0
  \<close>
  Every framework call is a transformer of one opaque world \<open>'w\<close> (the model, its
  gradients, the optimizer and the autograd graph); nothing is assumed about what a
  call changes inside it. \<open>loss.item()\<close> reads a number out of the world. A batch
  \<open>'b\<close> is the pair (images, labels). Python floats are modelled as reals.
\<close>

record ('w, 'b) framework =
  size0 :: "'b \<Rightarrow> nat"
  resize :: "'b \<Rightarrow> nat \<Rightarrow> nat \<Rightarrow> 'w \<Rightarrow> 'w"
  zero_grad :: "'w \<Rightarrow> 'w"
  forward :: "'b \<Rightarrow> 'w \<Rightarrow> 'w"
  criterion :: "'b \<Rightarrow> 'w \<Rightarrow> 'w"
  backward :: "'w \<Rightarrow> 'w"
  optimizer_step :: "'w \<Rightarrow> 'w"
  loss_item :: "'w \<Rightarrow> real"

text \<open>A printed line: the two numbers of the epoch field and the loss field.\<close>

record 'w loop_state =
  steps :: nat
  running_loss :: real
  world :: "'w"
  printed :: "(nat \<times> nat \<times> real) list"

definition epochs :: nat where
  "epochs = 3"

definition print_every :: nat where
  "print_every = 40"

text \<open>The body of the inner loop, for the batch \<open>b\<close> of epoch \<open>e\<close>.\<close>

definition train_batch ::
  "('w, 'b) framework \<Rightarrow> nat \<Rightarrow> 'b \<Rightarrow> 'w loop_state \<Rightarrow> 'w loop_state" where
  "train_batch fw e b s =
     (let s1 = s\<lparr>steps := steps s + 1\<rparr>;
          w1 = resize fw b (size0 fw b) 784 (world s1);
          w2 = zero_grad fw w1;
          w3 = forward fw b w2;
          w4 = criterion fw b w3;
          w5 = backward fw w4;
          w6 = optimizer_step fw w5;
          s2 = s1\<lparr>world := w6, running_loss := running_loss s1 + loss_item fw w6\<rparr>
      in if steps s2 mod print_every = 0
         then s2\<lparr>printed := printed s2 @ [(e + 1, epochs, running_loss s2 / real print_every)],
                 running_loss := 0\<rparr>
         else s2)"

text \<open>One epoch: \<open>running_loss = 0\<close>, then the batches the loader yields in this epoch.\<close>

definition train_epoch ::
  "('w, 'b) framework \<Rightarrow> (nat \<Rightarrow> 'b list) \<Rightarrow> nat \<Rightarrow> 'w loop_state \<Rightarrow> 'w loop_state" where
  "train_epoch fw trainloader e s =
     fold (train_batch fw e) (trainloader e) (s\<lparr>running_loss := 0\<rparr>)"

text \<open>
  The whole cell. The loader is shuffled, so it is a function from the epoch to the
  batches drawn in that epoch. \<open>running_loss\<close> does not exist before the first epoch;
  the initial state gives it 0.
\<close>

definition training ::
  "('w, 'b) framework \<Rightarrow> (nat \<Rightarrow> 'b list) \<Rightarrow> 'w \<Rightarrow> 'w loop_state" where
  "training fw trainloader w0 =
     fold (train_epoch fw trainloader) [0 ..< epochs]
       \<lparr>steps = 0, running_loss = 0, world = w0, printed = []\<rparr>"

text \<open>
  A framework whose every loss is 1 and whose world is the list of losses that
  \<open>loss.item()\<close> has returned so far is enough to read the printed averages against
  the true ones.
\<close>

definition unit_loss_framework :: "(real list, unit) framework" where
  "unit_loss_framework =
     \<lparr>size0 = (\<lambda>_. 64), resize = (\<lambda>_ _ _ w. w), zero_grad = (\<lambda>w. w),
      forward = (\<lambda>_ w. w), criterion = (\<lambda>_ w. w @ [1]), backward = (\<lambda>w. w),
      optimizer_step = (\<lambda>w. w), loss_item = last\<rparr>"

text \<open>The average of the last \<open>n\<close> losses of a history, in the words of the claim.\<close>

definition average_of_last :: "nat \<Rightarrow> real list \<Rightarrow> real" where
  "average_of_last n ls = sum_list (drop (length ls - n) ls) / real n"


section \<open>Python values, tensors and files\<close>

text \<open>
  The notebooks call a deep-learning framework (\<open>torch\<close>) that is not part of the
  repository. Each framework call below is modelled from what the notebook shows of
  it: the values it prints and the errors it records. What a call does on inputs the
  notebook never gives it (a value of another type, a negative size) is not shown;
  the model raises some error there, and no theorem depends on which.

  A tensor is its shape (\<open>torch.Size\<close>) and its values. The values are kept as one
  opaque payload \<open>'a\<close>: saving, loading and \<open>load_state_dict\<close> only compare shapes
  and move values around.
\<close>

datatype 'a tensor = Tensor (shape: "nat list") (storage: 'a)

text \<open>
  The Python values that the notebook stores in a checkpoint: integers, lists,
  tensors and dictionaries with string keys (in insertion order, as \<open>dict\<close> and
  \<open>OrderedDict\<close> keep them).
\<close>

datatype 'a pyobj =
    PyInt int
  | PyList "'a pyobj list"
  | PyTensor "'a tensor"
  | PyDict "(string \<times> 'a pyobj) list"

text \<open>One line of the message of the \<open>RuntimeError\<close> raised by \<open>load_state_dict\<close>.\<close>

datatype load_msg =
    MissingKeys "string list"
  | UnexpectedKeys "string list"
  | SizeMismatch string "nat list" "nat list"
  | NotATensor string
  | NegativeDimension int

datatype error =
    RuntimeError "load_msg list"
  | KeyError string
  | TypeError
  | IndexError
  | FileNotFoundError string

text \<open>
  A call that may raise returns \<open>Inl\<close> of the error. Statements in sequence stop at
  the first error.
\<close>

definition and_then :: "error + 'a \<Rightarrow> ('a \<Rightarrow> error + 'b) \<Rightarrow> error + 'b" where
  "and_then r f = (case r of Inl e \<Rightarrow> Inl e | Inr x \<Rightarrow> f x)"

text \<open>\<open>obj[key]\<close> for a string key.\<close>

definition getitem :: "'a pyobj \<Rightarrow> string \<Rightarrow> error + 'a pyobj" where
  "getitem obj key =
     (case obj of
        PyDict kvs \<Rightarrow> (case map_of kvs key of None \<Rightarrow> Inl (KeyError key) | Some v \<Rightarrow> Inr v)
      | PyTensor t \<Rightarrow> Inl IndexError
      | _ \<Rightarrow> Inl TypeError)"

text \<open>
  \<open>torch.save(obj, path)\<close> and \<open>torch.load(path)\<close>. The framework's serialisation is
  not part of this repository; the file system is modelled as a map from paths to the
  object last saved there, which is the contract the notebook relies on.
\<close>

type_synonym 'a files = "string \<rightharpoonup> 'a pyobj"

definition torch_save :: "'a pyobj \<Rightarrow> string \<Rightarrow> 'a files \<Rightarrow> 'a files" where
  "torch_save obj path fs = fs(path \<mapsto> obj)"

definition torch_load :: "string \<Rightarrow> 'a files \<Rightarrow> error + 'a pyobj" where
  "torch_load path fs =
     (case fs path of None \<Rightarrow> Inl (FileNotFoundError path) | Some obj \<Rightarrow> Inr obj)"

section \<open>The fully connected network\<close>

text \<open>\<open>str(n)\<close> for a natural number: its decimal digits.\<close>

definition digit_char :: "nat \<Rightarrow> char" where
  "digit_char d = char_of (48 + d)"

function str_nat :: "nat \<Rightarrow> string" where
  "str_nat n = (if n < 10 then [digit_char n] else str_nat (n div 10) @ [digit_char (n mod 10)])"
  by pat_completeness auto
termination
  by (relation "measure (\<lambda>n. n)") auto

declare str_nat.simps [simp del]

text \<open>Reading the digits back, to show that \<open>str_nat\<close> gives different numbers different names.\<close>

definition digit_val :: "char \<Rightarrow> nat" where
  "digit_val c = of_char c - 48"

definition parse_nat :: "string \<Rightarrow> nat" where
  "parse_nat s = foldl (\<lambda>a c. 10 * a + digit_val c) 0 s"

text \<open>
  \<open>nn.Linear(in_features, out_features)\<close>: a weight of shape
  \<open>[out_features, in_features]\<close> and a bias of shape \<open>[out_features]\<close>, as the
  notebook's error message prints them. \<open>init\<close> gives the values a parameter holds,
  by the parameter's name and shape: the framework draws them at random.
\<close>

record 'a linear_layer =
  in_features :: nat
  out_features :: nat
  weight :: "'a tensor"
  bias :: "'a tensor"

definition Linear :: "string \<Rightarrow> nat \<Rightarrow> nat \<Rightarrow> (string \<Rightarrow> nat list \<Rightarrow> 'a) \<Rightarrow> 'a linear_layer" where
  "Linear prefix i out init =
     \<lparr>in_features = i, out_features = out,
      weight = Tensor [out, i] (init (prefix @ ''weight'') [out, i]),
      bias = Tensor [out] (init (prefix @ ''bias'') [out])\<rparr>"

text \<open>The module's attribute \<open>output\<close> is the field \<open>output_layer\<close>.\<close>

record 'a network =
  hidden_layers :: "'a linear_layer list"
  output_layer :: "'a linear_layer"

definition hidden_prefix :: "nat \<Rightarrow> string" where
  "hidden_prefix i = ''hidden_layers.'' @ str_nat i @ ''.''"

fun build_hidden ::
  "nat \<Rightarrow> nat \<Rightarrow> nat list \<Rightarrow> (string \<Rightarrow> nat list \<Rightarrow> 'a) \<Rightarrow> 'a linear_layer list" where
  "build_hidden idx i [] init = []"
| "build_hidden idx i (h # hs) init =
     Linear (hidden_prefix idx) i h init # build_hidden (Suc idx) h hs init"

text \<open>
  Modelled from the spec: \<open>fc_model.Network(input_size, output_size, hidden_layers)\<close>,
  whose module \<open>fc_model\<close> is imported by the notebook and is not among the sources.
  The only description is what the notebook prints for
  \<open>Network(784, 10, [512, 256, 128])\<close>:
  \<^verbatim>\<open>
  Network(
    (hidden_layers): ModuleList(
      (0): Linear(in_features=784, out_features=512, bias=True)
      (1): Linear(in_features=512, out_features=256, bias=True)
      (2): Linear(in_features=256, out_features=128, bias=True)
    )
    (output): Linear(in_features=128, out_features=10, bias=True)
    (dropout): Dropout(p=0.5, inplace=False)
  )
  \<close>
  a chain of linear layers through the hidden sizes, then an output layer from the last
  hidden size. The dropout module holds no parameter and is left out. With no hidden
  size there is no last hidden size to build the output layer from; the model raises
  \<open>IndexError\<close> there.
\<close>

definition Network ::
  "nat \<Rightarrow> nat \<Rightarrow> nat list \<Rightarrow> (string \<Rightarrow> nat list \<Rightarrow> 'a) \<Rightarrow> error + 'a network" where
  "Network input_size output_size hidden init =
     (if hidden = [] then Inl IndexError
      else Inr \<lparr>hidden_layers = build_hidden 0 input_size hidden init,
                output_layer = Linear ''output.'' (last hidden) output_size init\<rparr>)"

text \<open>
  The constructor as Python calls it, on untyped values: a size is a non-negative
  integer, the hidden sizes are a list of them.
\<close>

definition as_size :: "'a pyobj \<Rightarrow> error + nat" where
  "as_size obj =
     (case obj of
        PyInt i \<Rightarrow> if i < 0 then Inl (RuntimeError [NegativeDimension i]) else Inr (nat i)
      | _ \<Rightarrow> Inl TypeError)"

fun as_sizes :: "'a pyobj list \<Rightarrow> error + nat list" where
  "as_sizes [] = Inr []"
| "as_sizes (x # xs) =
     (case as_size x of
        Inl e \<Rightarrow> Inl e
      | Inr n \<Rightarrow> (case as_sizes xs of Inl e \<Rightarrow> Inl e | Inr ns \<Rightarrow> Inr (n # ns)))"

definition Network_py ::
  "'a pyobj \<Rightarrow> 'a pyobj \<Rightarrow> 'a pyobj \<Rightarrow> (string \<Rightarrow> nat list \<Rightarrow> 'a) \<Rightarrow> error + 'a network" where
  "Network_py input_size output_size hidden init =
     (case as_size input_size of
        Inl e \<Rightarrow> Inl e
      | Inr i \<Rightarrow>
          (case as_size output_size of
             Inl e \<Rightarrow> Inl e
           | Inr out \<Rightarrow>
               (case hidden of
                  PyList hs \<Rightarrow>
                    (case as_sizes hs of Inl e \<Rightarrow> Inl e | Inr ns \<Rightarrow> Network i out ns init)
                | _ \<Rightarrow> Inl TypeError)))"

section \<open>State dictionaries\<close>

text \<open>
  \<open>model.state_dict()\<close>: the parameters by name, in module order. The notebook prints
  the keys \<open>hidden_layers.0.weight\<close>, \<open>hidden_layers.0.bias\<close>, ..., \<open>output.weight\<close>,
  \<open>output.bias\<close>.
\<close>

definition linear_state_dict :: "string \<Rightarrow> 'a linear_layer \<Rightarrow> (string \<times> 'a tensor) list" where
  "linear_state_dict prefix l = [(prefix @ ''weight'', weight l), (prefix @ ''bias'', bias l)]"

fun layers_state_dict :: "nat \<Rightarrow> 'a linear_layer list \<Rightarrow> (string \<times> 'a tensor) list" where
  "layers_state_dict idx [] = []"
| "layers_state_dict idx (l # ls) =
     linear_state_dict (hidden_prefix idx) l @ layers_state_dict (Suc idx) ls"

definition state_dict :: "'a network \<Rightarrow> (string \<times> 'a tensor) list" where
  "state_dict m =
     layers_state_dict 0 (hidden_layers m) @ linear_state_dict ''output.'' (output_layer m)"

text \<open>The state dictionary as the Python value that is saved and loaded.\<close>

definition state_dict_obj :: "'a network \<Rightarrow> 'a pyobj" where
  "state_dict_obj m = PyDict (map (\<lambda>(k, t). (k, PyTensor t)) (state_dict m))"

text \<open>
  \<open>model.load_state_dict(state_dict)\<close> with the default \<open>strict=True\<close>, as the
  notebook's two calls show it: every parameter of the model is looked up by name; a
  tensor of another shape adds a "size mismatch" line and is not copied, a tensor of
  the same shape is copied into the parameter; names of the model that the dictionary
  lacks are missing keys, names of the dictionary that the model lacks are unexpected
  keys. Any such line raises one \<open>RuntimeError\<close> listing them all; otherwise the
  call returns the (empty) missing and unexpected keys, printed as
  \<open><All keys matched successfully>\<close>. The parameters copied before a
  \<open>RuntimeError\<close> are not tracked: the result is the error alone.
\<close>

definition load_param ::
  "(string \<times> 'a pyobj) list \<Rightarrow> string \<Rightarrow> 'a tensor \<Rightarrow> 'a tensor \<times> load_msg list \<times> string list" where
  "load_param sd key p =
     (case map_of sd key of
        None \<Rightarrow> (p, [], [key])
      | Some (PyTensor t) \<Rightarrow>
          if shape t \<noteq> shape p then (p, [SizeMismatch key (shape t) (shape p)], [])
          else (Tensor (shape p) (storage t), [], [])
      | Some _ \<Rightarrow> (p, [NotATensor key], []))"

definition load_linear ::
  "(string \<times> 'a pyobj) list \<Rightarrow> string \<Rightarrow> 'a linear_layer
     \<Rightarrow> 'a linear_layer \<times> load_msg list \<times> string list" where
  "load_linear sd prefix l =
     (case load_param sd (prefix @ ''weight'') (weight l) of (w, e1, m1) \<Rightarrow>
        (case load_param sd (prefix @ ''bias'') (bias l) of (b, e2, m2) \<Rightarrow>
           (l\<lparr>weight := w, bias := b\<rparr>, e1 @ e2, m1 @ m2)))"

fun load_layers ::
  "(string \<times> 'a pyobj) list \<Rightarrow> nat \<Rightarrow> 'a linear_layer list
     \<Rightarrow> 'a linear_layer list \<times> load_msg list \<times> string list" where
  "load_layers sd idx [] = ([], [], [])"
| "load_layers sd idx (l # ls) =
     (case load_linear sd (hidden_prefix idx) l of (l', e, m) \<Rightarrow>
        (case load_layers sd (Suc idx) ls of (ls', es, ms) \<Rightarrow>
           (l' # ls', e @ es, m @ ms)))"

definition load_state_dict ::
  "'a network \<Rightarrow> 'a pyobj \<Rightarrow> error + ('a network \<times> string list \<times> string list)" where
  "load_state_dict m obj =
     (case obj of
        PyDict sd \<Rightarrow>
          (case load_layers sd 0 (hidden_layers m) of (hl, e1, m1) \<Rightarrow>
             (case load_linear sd ''output.'' (output_layer m) of (out, e2, m2) \<Rightarrow>
                (let missing = m1 @ m2;
                     unexpected = filter (\<lambda>k. k \<notin> set (map fst (state_dict m))) (map fst sd);
                     msgs = (if missing = [] then [] else [MissingKeys missing])
                            @ (if unexpected = [] then [] else [UnexpectedKeys unexpected])
                            @ e1 @ e2
                 in if msgs = []
                    then Inr (m\<lparr>hidden_layers := hl, output_layer := out\<rparr>, missing, unexpected)
                    else Inl (RuntimeError msgs))))
      | _ \<Rightarrow> Inl TypeError)"

section \<open>Part 6 - Saving and Loading Models\<close>

text \<open>
  The checkpoint dictionary of the notebook:
  \<^verbatim>\<open>
  checkpoint = {'input_size': 784,
                'output_size': 10,
                'hidden_layers': [each.out_features for each in model.hidden_layers],
                'state_dict': model.state_dict()}
  \<close>
\<close>

definition checkpoint :: "'a network \<Rightarrow> 'a pyobj" where
  "checkpoint model =
     PyDict [(''input_size'', PyInt 784),
             (''output_size'', PyInt 10),
             (''hidden_layers'', PyList (map (\<lambda>each. PyInt (int (out_features each))) (hidden_layers model))),
             (''state_dict'', state_dict_obj model)]"

text \<open>
  \<^verbatim>\<open>
  def load_checkpoint(filepath):
      checkpoint = torch.load(filepath)
      model = fc_model.Network(checkpoint['input_size'],
                               checkpoint['output_size'],
                               checkpoint['hidden_layers'])
      model.load_state_dict(checkpoint['state_dict'])
      return model
  \<close>
  Every call may raise; the function has no handler, so the statements are chained
  with \<open>and_then\<close>. The subscripts are evaluated in the order Python evaluates them.
  \<open>init\<close> gives the values of the freshly built network.
\<close>

definition load_checkpoint ::
  "string \<Rightarrow> 'a files \<Rightarrow> (string \<Rightarrow> nat list \<Rightarrow> 'a) \<Rightarrow> error + 'a network" where
  "load_checkpoint filepath fs init =
     and_then (torch_load filepath fs) (\<lambda>ckpt.
     and_then (getitem ckpt ''input_size'') (\<lambda>a.
     and_then (getitem ckpt ''output_size'') (\<lambda>b.
     and_then (getitem ckpt ''hidden_layers'') (\<lambda>c.
     and_then (Network_py a b c init) (\<lambda>model.
     and_then (getitem ckpt ''state_dict'') (\<lambda>sd.
     and_then (load_state_dict model sd) (\<lambda>loaded.
       Inr (fst loaded))))))))"

text \<open>
  The cell that loads a state dictionary into a network of another architecture:
  \<^verbatim>\<open>
  model = fc_model.Network(784, 10, [400, 200, 100])
  model.load_state_dict(state_dict)
  \<close>
\<close>

definition load_into_other ::
  "'a pyobj \<Rightarrow> (string \<Rightarrow> nat list \<Rightarrow> 'a) \<Rightarrow> error + ('a network \<times> string list \<times> string list)" where
  "load_into_other state_dict_loaded init =
     and_then (Network 784 10 [400, 200, 100] init) (\<lambda>model.
       load_state_dict model state_dict_loaded)"

text \<open>The architecture of a network: input size, output size, hidden layer sizes.\<close>

definition architecture :: "'a network \<Rightarrow> nat \<times> nat \<times> nat list" where
  "architecture m =
     ((case hidden_layers m of [] \<Rightarrow> in_features (output_layer m) | l # _ \<Rightarrow> in_features l),
      out_features (output_layer m),
      map out_features (hidden_layers m))"

text \<open>
  A value is a state dictionary when it is a dictionary all of whose values are tensors.
  The values the notebook passes to \<open>torch.save\<close> are the state dictionary of the
  model (first) and the checkpoint dictionary (second).
\<close>

fun is_tensor :: "'a pyobj \<Rightarrow> bool" where
  "is_tensor (PyTensor t) = True"
| "is_tensor _ = False"

fun is_state_dict :: "'a pyobj \<Rightarrow> bool" where
  "is_state_dict (PyDict kvs) = list_all (\<lambda>kv. is_tensor (snd kv)) kvs"
| "is_state_dict _ = False"

definition saved_values :: "'a network \<Rightarrow> 'a pyobj list" where
  "saved_values model = [state_dict_obj model, checkpoint model]"

fun dict_keys :: "'a pyobj \<Rightarrow> string list" where
  "dict_keys (PyDict kvs) = map fst kvs"
| "dict_keys _ = []"

text \<open>
  Concrete inputs: an initialisation that gives every parameter the same value, a file
  system with no file, and the notebook's network \<open>Network(784, 10, [512, 256, 128])\<close>
  with every value \<open>True\<close>.
\<close>

definition constant_init :: "'a \<Rightarrow> string \<Rightarrow> nat list \<Rightarrow> 'a" where
  "constant_init v name shp = v"

definition no_files :: "'a files" where
  "no_files = Map.empty"

definition example_model :: "bool network" where
  "example_model =
     \<lparr>hidden_layers = build_hidden 0 784 [512, 256, 128] (constant_init True),
      output_layer = Linear ''output.'' 128 10 (constant_init True)\<rparr>"

section \<open>The training loop: what is printed\<close>

lemma train_batch_steps: "steps (train_batch fw e b s) = steps s + 1"
  by (simp add: train_batch_def Let_def)

lemma train_batch_world:
  "world (train_batch fw e b s) =
     optimizer_step fw (backward fw (criterion fw b (forward fw b
       (zero_grad fw (resize fw b (size0 fw b) 784 (world s))))))"
  by (simp add: train_batch_def Let_def)

lemma train_batch_unit_loss:
  "train_batch unit_loss_framework e ()
     \<lparr>steps = n, running_loss = r, world = w, printed = p\<rparr> =
   (if Suc n mod 40 = 0
    then \<lparr>steps = Suc n, running_loss = 0, world = w @ [1],
          printed = p @ [(e + 1, 3, (r + 1) / 40)]\<rparr>
    else \<lparr>steps = Suc n, running_loss = r + 1, world = w @ [1], printed = p\<rparr>)"
  by (simp add: train_batch_def unit_loss_framework_def print_every_def epochs_def Let_def)

lemma replicate_15: "replicate 15 x = [x, x, x, x, x, x, x, x, x, x, x, x, x, x, x]"
  by (simp add: numeral_eq_Suc)

lemma upt_0_3: "[0 ..< 3] = [0, 1, 2]"
  by (simp add: upt_rec)

lemma replicate_45: "replicate 45 (1::real) = replicate 15 1 @ replicate 15 1 @ replicate 15 1"
  by (simp flip: replicate_add)

lemma training_15_batches:
  "training unit_loss_framework (\<lambda>e. replicate 15 ()) [] =
     \<lparr>steps = 45, running_loss = 5, world = replicate 45 1, printed = [(3, 3, 1 / 4)]\<rparr>"
  by (simp add: training_def train_epoch_def epochs_def train_batch_unit_loss
      replicate_15 upt_0_3 replicate_45)

text \<open>
  Claim C3. The loop runs, for each of the 3 epochs and each batch, the steps in the
  order of the claim, and every 40 steps prints the average of the running loss over
  those 40 steps. The code resets \<open>running_loss\<close> at the start of every epoch while
  \<open>steps\<close> runs on, so a print whose 40 steps cross an epoch boundary divides the sum
  of fewer losses by 40. With 15 batches in each epoch and every loss equal to 1, the
  only line printed (at step 40, the tenth batch of the third epoch) shows 0.25, and
  the average of the losses of steps 1 to 40 is 1.
\<close>

theorem training_prints_partial_average:
  "printed (training unit_loss_framework (\<lambda>e. replicate 15 ()) []) = [(3, 3, 1 / 4)]
   \<and> average_of_last print_every
        (take 40 (world (training unit_loss_framework (\<lambda>e. replicate 15 ()) []))) = 1"
  by (simp add: training_15_batches average_of_last_def print_every_def sum_list_replicate)

section \<open>Parameter names are distinct\<close>

lemma digit_val_digit_char: "d < 10 \<Longrightarrow> digit_val (digit_char d) = d"
  by (simp add: digit_val_def digit_char_def)

lemma parse_nat_str_nat: "parse_nat (str_nat n) = n"
proof (induction n rule: str_nat.induct)
  case (1 n)
  show ?case
  proof (cases "n < 10")
    case True
    then show ?thesis
      by (subst str_nat.simps) (simp add: parse_nat_def digit_val_digit_char)
  next
    case False
    with 1 have "parse_nat (str_nat (n div 10)) = n div 10" by simp
    with False show ?thesis
      by (subst str_nat.simps) (simp add: parse_nat_def digit_val_digit_char)
  qed
qed

lemma str_nat_inj: "str_nat a = str_nat b \<Longrightarrow> a = b"
  by (metis parse_nat_str_nat)

lemma hidden_prefix_inj: "hidden_prefix i = hidden_prefix j \<longleftrightarrow> i = j"
  by (auto simp: hidden_prefix_def dest: str_nat_inj)

lemma weight_neq_bias: "p @ ''weight'' \<noteq> q @ ''bias''"
proof
  assume "p @ ''weight'' = q @ ''bias''"
  then have "last (p @ ''weight'') = last (q @ ''bias'')" by simp
  then show False by simp
qed

lemma hidden_neq_output: "hidden_prefix i @ s \<noteq> ''output.'' @ t"
  by (simp add: hidden_prefix_def)

lemma keys_linear:
  "fst ` set (linear_state_dict p l) = {p @ ''weight'', p @ ''bias''}"
  by (simp add: linear_state_dict_def)

lemma keys_layers:
  "k \<in> fst ` set (layers_state_dict idx ls) \<Longrightarrow>
     \<exists>j\<ge>idx. k = hidden_prefix j @ ''weight'' \<or> k = hidden_prefix j @ ''bias''"
proof (induction ls arbitrary: idx)
  case Nil
  then show ?case by simp
next
  case (Cons l ls)
  from Cons.prems have "k \<in> {hidden_prefix idx @ ''weight'', hidden_prefix idx @ ''bias''}
      \<or> k \<in> fst ` set (layers_state_dict (Suc idx) ls)"
    by (simp only: layers_state_dict.simps set_append image_Un keys_linear Un_iff)
  then show ?case
  proof
    assume "k \<in> {hidden_prefix idx @ ''weight'', hidden_prefix idx @ ''bias''}"
    then have "k = hidden_prefix idx @ ''weight'' \<or> k = hidden_prefix idx @ ''bias''"
      by blast
    then show ?thesis by blast
  next
    assume "k \<in> fst ` set (layers_state_dict (Suc idx) ls)"
    from Cons.IH [OF this] obtain j where "Suc idx \<le> j"
      and "k = hidden_prefix j @ ''weight'' \<or> k = hidden_prefix j @ ''bias''"
      by blast
    then have "idx \<le> j" by simp
    with \<open>k = hidden_prefix j @ ''weight'' \<or> k = hidden_prefix j @ ''bias''\<close>
    show ?thesis by blast
  qed
qed

lemma hidden_key_fresh:
  assumes "w = ''weight'' \<or> w = ''bias''"
  shows "hidden_prefix idx @ w \<notin> fst ` set (layers_state_dict (Suc idx) ls)"
proof
  assume "hidden_prefix idx @ w \<in> fst ` set (layers_state_dict (Suc idx) ls)"
  then obtain j where j: "Suc idx \<le> j"
    and k: "hidden_prefix idx @ w = hidden_prefix j @ ''weight''
           \<or> hidden_prefix idx @ w = hidden_prefix j @ ''bias''"
    using keys_layers by blast
  from assms k have "hidden_prefix idx = hidden_prefix j"
    using weight_neq_bias [of "hidden_prefix idx" "hidden_prefix j"]
      weight_neq_bias [of "hidden_prefix j" "hidden_prefix idx"]
    by (elim disjE) (simp_all only: append_same_eq, metis+)
  then have "idx = j" by (simp only: hidden_prefix_inj)
  with j show False by simp
qed

lemma map_fst_linear:
  "map fst (linear_state_dict p l) = [p @ ''weight'', p @ ''bias'']"
  by (simp add: linear_state_dict_def)

lemma distinct_layers: "distinct (map fst (layers_state_dict idx ls))"
proof (induction ls arbitrary: idx)
  case Nil
  then show ?case by simp
next
  case (Cons l ls)
  have a: "hidden_prefix idx @ ''weight'' \<notin> set (map fst (layers_state_dict (Suc idx) ls))"
    using hidden_key_fresh [of "''weight''" idx ls] by (simp only: set_map) blast
  have b: "hidden_prefix idx @ ''bias'' \<notin> set (map fst (layers_state_dict (Suc idx) ls))"
    using hidden_key_fresh [of "''bias''" idx ls] by (simp only: set_map) blast
  have c: "hidden_prefix idx @ ''weight'' \<noteq> hidden_prefix idx @ ''bias''"
    by (rule weight_neq_bias)
  show ?case
    using a b c Cons.IH [of "Suc idx"]
    by (simp only: layers_state_dict.simps map_append map_fst_linear distinct_append
        distinct.simps set_simps) blast
qed

lemma output_key_fresh:
  "''output.'' @ w \<notin> set (map fst (layers_state_dict idx ls))"
proof
  assume "''output.'' @ w \<in> set (map fst (layers_state_dict idx ls))"
  then have "''output.'' @ w \<in> fst ` set (layers_state_dict idx ls)"
    by (simp only: set_map)
  then obtain j where "''output.'' @ w = hidden_prefix j @ ''weight''
         \<or> ''output.'' @ w = hidden_prefix j @ ''bias''"
    using keys_layers by blast
  then show False
    using hidden_neq_output [of j "''weight''" w] hidden_neq_output [of j "''bias''" w]
    by metis
qed

lemma distinct_state_dict: "distinct (map fst (state_dict m))"
proof -
  have c: "''output.'' @ ''weight'' \<noteq> ''output.'' @ ''bias''"
    by (rule weight_neq_bias)
  show ?thesis
    using c output_key_fresh [of "''weight''" 0 "hidden_layers m"]
      output_key_fresh [of "''bias''" 0 "hidden_layers m"]
      distinct_layers [of 0 "hidden_layers m"]
    by (simp only: state_dict_def map_append map_fst_linear distinct_append
        distinct.simps set_simps) blast
qed

section \<open>Loading a state dictionary of the same architecture\<close>

lemma load_param_hit:
  "map_of sd k = Some (PyTensor (Tensor s v)) \<Longrightarrow>
     load_param sd k (Tensor s v') = (Tensor s v, [], [])"
  by (simp add: load_param_def)

lemma load_linear_built:
  assumes "\<forall>(k, t) \<in> set (linear_state_dict p (Linear p i out init)). map_of sd k = Some (PyTensor t)"
  shows "load_linear sd p (Linear p i out init') = (Linear p i out init, [], [])"
proof -
  from assms have
    w: "map_of sd (p @ ''weight'') = Some (PyTensor (Tensor [out, i] (init (p @ ''weight'') [out, i])))"
    and b: "map_of sd (p @ ''bias'') = Some (PyTensor (Tensor [out] (init (p @ ''bias'') [out])))"
    by (simp_all add: linear_state_dict_def Linear_def)
  show ?thesis
    by (simp add: load_linear_def Linear_def load_param_hit [OF w] load_param_hit [OF b])
qed

lemma load_layers_built:
  assumes "\<forall>(k, t) \<in> set (layers_state_dict idx (build_hidden idx i hs init)).
             map_of sd k = Some (PyTensor t)"
  shows "load_layers sd idx (build_hidden idx i hs init') = (build_hidden idx i hs init, [], [])"
  using assms
proof (induction hs arbitrary: idx i)
  case Nil
  then show ?case by simp
next
  case (Cons h hs)
  from Cons.prems have
    "\<forall>(k, t) \<in> set (linear_state_dict (hidden_prefix idx) (Linear (hidden_prefix idx) i h init)).
        map_of sd k = Some (PyTensor t)"
    and rest: "\<forall>(k, t) \<in> set (layers_state_dict (Suc idx) (build_hidden (Suc idx) h hs init)).
        map_of sd k = Some (PyTensor t)"
    by auto
  then have "load_linear sd (hidden_prefix idx) (Linear (hidden_prefix idx) i h init') =
      (Linear (hidden_prefix idx) i h init, [], [])"
    by (simp add: load_linear_built)
  moreover have "load_layers sd (Suc idx) (build_hidden (Suc idx) h hs init') =
      (build_hidden (Suc idx) h hs init, [], [])"
    by (rule Cons.IH [OF rest])
  ultimately show ?case by simp
qed

lemma keys_layers_length:
  "length ls = length ls' \<Longrightarrow>
     map fst (layers_state_dict idx ls) = map fst (layers_state_dict idx ls')"
proof (induction ls ls' arbitrary: idx rule: list_induct2)
  case Nil
  then show ?case by simp
next
  case (Cons l ls l' ls')
  then show ?case by (simp add: map_fst_linear)
qed

lemma length_build_hidden: "length (build_hidden idx i hs init) = length hs"
  by (induction hs arbitrary: idx i) simp_all

lemma out_features_build_hidden: "map out_features (build_hidden idx i hs init) = hs"
  by (induction hs arbitrary: idx i) (simp_all add: Linear_def)

lemma map_of_state_dict_obj:
  assumes "(k, t) \<in> set (state_dict m)"
  shows "map_of (map (\<lambda>(k, t). (k, PyTensor t)) (state_dict m)) k = Some (PyTensor t)"
proof -
  from assms have "map_of (state_dict m) k = Some t"
    by (simp add: distinct_state_dict)
  then show ?thesis by (simp add: map_of_map)
qed

lemma load_state_dict_same_architecture:
  assumes m0: "Network i out hs init0 = Inr m0" and m: "Network i out hs init = Inr m"
  shows "load_state_dict m (state_dict_obj m0) = Inr (m0, [], [])"
proof -
  let ?sd = "map (\<lambda>(k, t). (k, PyTensor t)) (state_dict m0)"
  from m0 have hs: "hs \<noteq> []"
    and m0_eq: "m0 = \<lparr>hidden_layers = build_hidden 0 i hs init0,
                      output_layer = Linear ''output.'' (last hs) out init0\<rparr>"
    by (auto simp: Network_def split: if_splits)
  from m hs have m_eq: "m = \<lparr>hidden_layers = build_hidden 0 i hs init,
                      output_layer = Linear ''output.'' (last hs) out init\<rparr>"
    by (auto simp: Network_def)
  have lookup: "\<forall>(k, t) \<in> set (state_dict m0). map_of ?sd k = Some (PyTensor t)"
    using map_of_state_dict_obj [of _ _ m0] by blast
  have "\<forall>(k, t) \<in> set (layers_state_dict 0 (build_hidden 0 i hs init0)). map_of ?sd k = Some (PyTensor t)"
    using lookup by (simp add: state_dict_def m0_eq)
  then have hl: "load_layers ?sd 0 (hidden_layers m) = (hidden_layers m0, [], [])"
    by (simp add: m_eq m0_eq load_layers_built)
  have "\<forall>(k, t) \<in> set (linear_state_dict ''output.'' (Linear ''output.'' (last hs) out init0)).
          map_of ?sd k = Some (PyTensor t)"
    using lookup by (simp add: state_dict_def m0_eq)
  then have ol: "load_linear ?sd ''output.'' (output_layer m) = (output_layer m0, [], [])"
    by (simp add: m_eq m0_eq load_linear_built)
  have "map fst ?sd = map fst (state_dict m0)"
    by (simp add: comp_def case_prod_unfold)
  also have "\<dots> = map fst (state_dict m)"
    by (simp add: state_dict_def m_eq m0_eq map_fst_linear
        keys_layers_length [of "build_hidden 0 i hs init0" "build_hidden 0 i hs init"]
        length_build_hidden)
  finally have keys: "map fst ?sd = map fst (state_dict m)" .
  have unexpected: "filter (\<lambda>k. k \<notin> fst ` set (state_dict m)) (map fst ?sd) = []"
    by (simp only: keys) simp
  have "m\<lparr>hidden_layers := hidden_layers m0, output_layer := output_layer m0\<rparr> = m0"
    by simp
  then show ?thesis
    by (simp add: load_state_dict_def state_dict_obj_def hl ol unexpected Let_def del: map_map)
qed

section \<open>Saving a checkpoint and loading it\<close>

lemma as_sizes_ints: "as_sizes (map (\<lambda>n. PyInt (int n)) hs) = Inr hs"
  by (induction hs) (simp_all add: as_size_def)

lemma Network_py_ints:
  "Network_py (PyInt (int i)) (PyInt (int out)) (PyList (map (\<lambda>n. PyInt (int n)) hs)) init =
     Network i out hs init"
  by (simp add: Network_py_def as_size_def as_sizes_ints)

lemma Network_hidden_sizes:
  "Network i out hs init = Inr m \<Longrightarrow> map out_features (hidden_layers m) = hs"
  by (auto simp: Network_def out_features_build_hidden split: if_splits)

lemma Network_architecture:
  "Network i out hs init = Inr m \<Longrightarrow> architecture m = (i, out, hs)"
  by (cases hs) (auto simp: Network_def architecture_def out_features_build_hidden Linear_def
      split: if_splits)

lemma Network_total:
  "Network i out hs init = Inr m \<Longrightarrow> \<exists>m'. Network i out hs init' = Inr m'"
  by (simp add: Network_def split: if_splits)

lemma checkpoint_items:
  "getitem (checkpoint m) ''input_size'' = Inr (PyInt 784)"
  "getitem (checkpoint m) ''output_size'' = Inr (PyInt 10)"
  "getitem (checkpoint m) ''hidden_layers'' =
     Inr (PyList (map (\<lambda>each. PyInt (int (out_features each))) (hidden_layers m)))"
  "getitem (checkpoint m) ''state_dict'' = Inr (state_dict_obj m)"
  by (simp_all add: getitem_def checkpoint_def)

lemma torch_load_save: "torch_load path (torch_save obj path fs) = Inr obj"
  by (simp add: torch_load_def torch_save_def)

lemma load_checkpoint_saved:
  assumes "Network 784 10 hs init = Inr m"
  shows "load_checkpoint path (torch_save (checkpoint m) path fs) init' = Inr m"
proof -
  from assms obtain m' where m': "Network 784 10 hs init' = Inr m'"
    using Network_total by blast
  have sizes: "map (\<lambda>each. PyInt (int (out_features each))) (hidden_layers m) =
      map (\<lambda>n. PyInt (int n)) hs"
    using Network_hidden_sizes [OF assms, symmetric] by (simp add: comp_def)
  have "Network_py (PyInt 784) (PyInt 10) (PyList (map (\<lambda>n. PyInt (int n)) hs)) init' = Inr m'"
    using Network_py_ints [of 784 10 hs init'] m' by simp
  moreover have "load_state_dict m' (state_dict_obj m) = Inr (m, [], [])"
    by (rule load_state_dict_same_architecture [OF assms m'])
  ultimately show ?thesis
    by (simp add: load_checkpoint_def torch_load_save checkpoint_items sizes and_then_def)
qed

text \<open>
  Claim C1. For every model constructed as \<open>fc_model.Network(784, 10, hidden_sizes)\<close>,
  whatever values its parameters hold, saving the notebook's checkpoint dictionary with
  \<open>torch.save\<close> and calling \<open>load_checkpoint\<close> on that file returns a model with the
  same input size, output size and hidden layer sizes, and with a state dictionary
  equal to the original one. \<open>init'\<close> is the random initialisation of the network
  that \<open>load_checkpoint\<close> builds before it loads the saved parameters.
\<close>

theorem checkpoint_round_trip:
  assumes "Network 784 10 hidden_sizes init = Inr model"
  shows "\<exists>loaded. load_checkpoint filepath (torch_save (checkpoint model) filepath fs) init' = Inr loaded
           \<and> architecture model = (784, 10, hidden_sizes)
           \<and> architecture loaded = architecture model
           \<and> state_dict loaded = state_dict model"
  using load_checkpoint_saved [OF assms] Network_architecture [OF assms] by simp

text \<open>The claim at the notebook's own network, saved to \<open>checkpoint.pth\<close>.\<close>

theorem checkpoint_round_trip_witness:
  "\<exists>model. Network 784 10 [512, 256, 128] (\<lambda>name shp. True) = Inr model
     \<and> (\<exists>loaded. load_checkpoint ''checkpoint.pth''
                     (torch_save (checkpoint model) ''checkpoint.pth'' Map.empty)
                     (\<lambda>name shp. False) = Inr loaded
           \<and> architecture model = (784, 10, [512, 256, 128])
           \<and> architecture loaded = architecture model
           \<and> state_dict loaded = state_dict model)"
proof -
  obtain model where m: "Network 784 10 [512, 256, 128] (\<lambda>name shp. True) = Inr model"
    by (simp add: Network_def)
  from checkpoint_round_trip [OF m] m show ?thesis by blast
qed

section \<open>Loading a state dictionary of another architecture\<close>

lemma str_nat_digit: "n < 10 \<Longrightarrow> str_nat n = [digit_char n]"
  by (subst str_nat.simps) simp

lemma digit_chars:
  "digit_char 0 = CHR ''0''" "digit_char (Suc 0) = CHR ''1''" "digit_char (Suc (Suc 0)) = CHR ''2''"
  by (simp_all add: digit_char_def char_of_def bit_0)

lemma hidden_prefix_0_1_2:
  "hidden_prefix 0 = ''hidden_layers.0.''"
  "hidden_prefix (Suc 0) = ''hidden_layers.1.''"
  "hidden_prefix (Suc (Suc 0)) = ''hidden_layers.2.''"
  by (simp_all add: hidden_prefix_def str_nat_digit digit_chars)

lemma load_param_mismatch:
  "map_of sd k = Some (PyTensor t) \<Longrightarrow> shape t \<noteq> shape p \<Longrightarrow>
     load_param sd k p = (p, [SizeMismatch k (shape t) (shape p)], [])"
  by (simp add: load_param_def)

lemma load_linear_mismatch:
  assumes "(k, p) \<in> set (linear_state_dict pre l)"
    and "map_of sd k = Some (PyTensor t)" and "shape t \<noteq> shape p"
  shows "SizeMismatch k (shape t) (shape p) \<in> set (fst (snd (load_linear sd pre l)))"
proof -
  from assms(1) have "(k = pre @ ''weight'' \<and> p = weight l) \<or> (k = pre @ ''bias'' \<and> p = bias l)"
    by (simp add: linear_state_dict_def)
  then show ?thesis
  proof
    assume "k = pre @ ''weight'' \<and> p = weight l"
    with assms(2,3) have "load_param sd (pre @ ''weight'') (weight l) =
        (weight l, [SizeMismatch k (shape t) (shape p)], [])"
      using load_param_mismatch [of sd k t p] by simp
    then show ?thesis
      by (simp add: load_linear_def split: prod.splits)
  next
    assume "k = pre @ ''bias'' \<and> p = bias l"
    with assms(2,3) have "load_param sd (pre @ ''bias'') (bias l) =
        (bias l, [SizeMismatch k (shape t) (shape p)], [])"
      using load_param_mismatch [of sd k t p] by simp
    then show ?thesis
      by (simp add: load_linear_def split: prod.splits)
  qed
qed

lemma load_layers_mismatch:
  assumes "(k, p) \<in> set (layers_state_dict idx ls)"
    and "map_of sd k = Some (PyTensor t)" and "shape t \<noteq> shape p"
  shows "SizeMismatch k (shape t) (shape p) \<in> set (fst (snd (load_layers sd idx ls)))"
  using assms(1)
proof (induction ls arbitrary: idx)
  case Nil
  then show ?case by simp
next
  case (Cons l ls)
  from Cons.prems have "(k, p) \<in> set (linear_state_dict (hidden_prefix idx) l)
      \<or> (k, p) \<in> set (layers_state_dict (Suc idx) ls)"
    by simp
  then show ?case
  proof
    assume "(k, p) \<in> set (linear_state_dict (hidden_prefix idx) l)"
    from load_linear_mismatch [OF this assms(2,3)] show ?thesis
      by (auto split: prod.splits)
  next
    assume "(k, p) \<in> set (layers_state_dict (Suc idx) ls)"
    from Cons.IH [OF this] show ?thesis
      by (auto split: prod.splits)
  qed
qed

lemma load_state_dict_mismatch:
  assumes "(k, p) \<in> set (state_dict m)"
    and "map_of sd k = Some (PyTensor t)" and "shape t \<noteq> shape p"
  shows "\<exists>msgs. load_state_dict m (PyDict sd) = Inl (RuntimeError msgs)
           \<and> SizeMismatch k (shape t) (shape p) \<in> set msgs"
proof -
  from assms(1) have "(k, p) \<in> set (layers_state_dict 0 (hidden_layers m))
      \<or> (k, p) \<in> set (linear_state_dict ''output.'' (output_layer m))"
    by (simp add: state_dict_def)
  then have "SizeMismatch k (shape t) (shape p) \<in>
      set (fst (snd (load_layers sd 0 (hidden_layers m)))
           @ fst (snd (load_linear sd ''output.'' (output_layer m))))"
    using load_layers_mismatch [OF _ assms(2,3)] load_linear_mismatch [OF _ assms(2,3)]
    by auto
  then show ?thesis
    by (auto simp: load_state_dict_def Let_def split: prod.splits)
qed

lemma load_into_other_512:
  assumes "Network 784 10 [512, 256, 128] init0 = Inr m0"
  shows "load_into_other (state_dict_obj m0) init =
     Inl (RuntimeError
       [SizeMismatch ''hidden_layers.0.weight'' [512, 784] [400, 784],
        SizeMismatch ''hidden_layers.0.bias'' [512] [400],
        SizeMismatch ''hidden_layers.1.weight'' [256, 512] [200, 400],
        SizeMismatch ''hidden_layers.1.bias'' [256] [200],
        SizeMismatch ''hidden_layers.2.weight'' [128, 256] [100, 200],
        SizeMismatch ''hidden_layers.2.bias'' [128] [100],
        SizeMismatch ''output.weight'' [10, 128] [10, 100]])"
proof -
  from assms have m0: "m0 = \<lparr>hidden_layers = build_hidden 0 784 [512, 256, 128] init0,
      output_layer = Linear ''output.'' 128 10 init0\<rparr>"
    by (simp add: Network_def)
  show ?thesis
    by (simp add: load_into_other_def and_then_def Network_def m0 load_state_dict_def
        state_dict_obj_def state_dict_def linear_state_dict_def Linear_def load_linear_def
        load_param_def hidden_prefix_0_1_2 Let_def)
qed

lemma Network_example: "Network 784 10 [512, 256, 128] (constant_init True) = Inr example_model"
  by (simp add: Network_def example_model_def)

text \<open>
  Claim C2. \<open>model.load_state_dict(state_dict)\<close> succeeds, with no missing and no
  unexpected key, when the model has the architecture of the network the state
  dictionary was saved from, and the model then holds the saved parameters; it raises
  a \<open>RuntimeError\<close> when a tensor of the state dictionary has another shape than the
  model's parameter of that name; and loading the state dictionary of
  \<open>Network(784, 10, [512, 256, 128])\<close> into \<open>Network(784, 10, [400, 200, 100])\<close>
  raises the \<open>RuntimeError\<close> with the seven size mismatches that the notebook shows.
\<close>

theorem load_state_dict_architecture:
  "(Network i out hs init0 = Inr saved \<longrightarrow> Network i out hs init = Inr model \<longrightarrow>
      load_state_dict model (state_dict_obj saved) = Inr (saved, [], []))
   \<and> ((k, p) \<in> set (state_dict other) \<longrightarrow> map_of sd k = Some (PyTensor t) \<longrightarrow>
        shape t \<noteq> shape p \<longrightarrow>
        (\<exists>msgs. load_state_dict other (PyDict sd) = Inl (RuntimeError msgs)
           \<and> SizeMismatch k (shape t) (shape p) \<in> set msgs))
   \<and> (Network 784 10 [512, 256, 128] init1 = Inr trained \<longrightarrow>
        load_into_other (state_dict_obj trained) init2 =
          Inl (RuntimeError
            [SizeMismatch ''hidden_layers.0.weight'' [512, 784] [400, 784],
             SizeMismatch ''hidden_layers.0.bias'' [512] [400],
             SizeMismatch ''hidden_layers.1.weight'' [256, 512] [200, 400],
             SizeMismatch ''hidden_layers.1.bias'' [256] [200],
             SizeMismatch ''hidden_layers.2.weight'' [128, 256] [100, 200],
             SizeMismatch ''hidden_layers.2.bias'' [128] [100],
             SizeMismatch ''output.weight'' [10, 128] [10, 100]]))"
  using load_state_dict_same_architecture [of i out hs init0 saved init model]
    load_state_dict_mismatch [of k p other sd t]
    load_into_other_512 [of init1 trained init2]
  by blast

text \<open>The three parts at concrete networks.\<close>

theorem load_state_dict_architecture_witness:
  "(\<exists>model. Network 784 10 [512, 256, 128] (constant_init True) = Inr example_model
      \<and> Network 784 10 [512, 256, 128] (constant_init False) = Inr model
      \<and> load_state_dict model (state_dict_obj example_model) = Inr (example_model, [], []))
   \<and> (\<exists>other msgs. Network 784 10 [400, 200, 100] (constant_init False) = Inr other
      \<and> (''output.weight'', Tensor [10, 100] False) \<in> set (state_dict other)
      \<and> map_of [(''output.weight'', PyTensor (Tensor [10, 128] True))] ''output.weight''
          = Some (PyTensor (Tensor [10, 128] True))
      \<and> shape (Tensor [10, 128] True) \<noteq> shape (Tensor [10, 100] False)
      \<and> load_state_dict other (PyDict [(''output.weight'', PyTensor (Tensor [10, 128] True))])
          = Inl (RuntimeError msgs)
      \<and> SizeMismatch ''output.weight'' [10, 128] [10, 100] \<in> set msgs)
   \<and> load_into_other (state_dict_obj example_model) (constant_init False) =
          Inl (RuntimeError
            [SizeMismatch ''hidden_layers.0.weight'' [512, 784] [400, 784],
             SizeMismatch ''hidden_layers.0.bias'' [512] [400],
             SizeMismatch ''hidden_layers.1.weight'' [256, 512] [200, 400],
             SizeMismatch ''hidden_layers.1.bias'' [256] [200],
             SizeMismatch ''hidden_layers.2.weight'' [128, 256] [100, 200],
             SizeMismatch ''hidden_layers.2.bias'' [128] [100],
             SizeMismatch ''output.weight'' [10, 128] [10, 100]])"
proof -
  obtain model where m: "Network 784 10 [512, 256, 128] (constant_init False) = Inr model"
    by (simp add: Network_def)
  obtain other where o: "Network 784 10 [400, 200, 100] (constant_init False) = Inr other"
    by (simp add: Network_def)
  have mem: "(''output.weight'', Tensor [10, 100] False) \<in> set (state_dict other)"
    using o by (auto simp: Network_def state_dict_def linear_state_dict_def Linear_def
        constant_init_def)
  have look: "map_of [(''output.weight'', PyTensor (Tensor [10, 128] True))] ''output.weight''
      = Some (PyTensor (Tensor [10, 128] True))"
    by simp
  have ne: "shape (Tensor [10, 128] True) \<noteq> shape (Tensor [10, 100] False)"
    by simp
  note thm1 = load_state_dict_architecture
    [of 784 10 "[512, 256, 128]" "constant_init True" example_model "constant_init False" model
      "''output.weight''" "Tensor [10, 100] False" other
      "[(''output.weight'', PyTensor (Tensor [10, 128] True))]" "Tensor [10, 128] True"
      "constant_init True" example_model "constant_init False"]
  from thm1 Network_example m
  have a: "load_state_dict model (state_dict_obj example_model) = Inr (example_model, [], [])"
    by blast
  from thm1 mem look ne obtain msgs
    where b: "load_state_dict other (PyDict [(''output.weight'', PyTensor (Tensor [10, 128] True))])
          = Inl (RuntimeError msgs)"
      and c: "SizeMismatch ''output.weight'' (shape (Tensor [10, 128] True))
          (shape (Tensor [10, 100] False)) \<in> set msgs"
    by blast
  from c have c': "SizeMismatch ''output.weight'' [10, 128] [10, 100] \<in> set msgs"
    by simp
  from thm1 Network_example
  have d: "load_into_other (state_dict_obj example_model) (constant_init False) =
          Inl (RuntimeError
            [SizeMismatch ''hidden_layers.0.weight'' [512, 784] [400, 784],
             SizeMismatch ''hidden_layers.0.bias'' [512] [400],
             SizeMismatch ''hidden_layers.1.weight'' [256, 512] [200, 400],
             SizeMismatch ''hidden_layers.1.bias'' [256] [200],
             SizeMismatch ''hidden_layers.2.weight'' [128, 256] [100, 200],
             SizeMismatch ''hidden_layers.2.bias'' [128] [100],
             SizeMismatch ''output.weight'' [10, 128] [10, 100]])"
    by blast
  from Network_example m a o mem look ne b c' d show ?thesis
    by blast
qed

section \<open>What is saved and what loading depends on\<close>

lemma state_dict_keys_512:
  assumes "Network 784 10 [512, 256, 128] init = Inr model"
  shows "dict_keys (state_dict_obj model) =
     [''hidden_layers.0.weight'', ''hidden_layers.0.bias'',
      ''hidden_layers.1.weight'', ''hidden_layers.1.bias'',
      ''hidden_layers.2.weight'', ''hidden_layers.2.bias'',
      ''output.weight'', ''output.bias'']"
proof -
  from assms have "model = \<lparr>hidden_layers = build_hidden 0 784 [512, 256, 128] init,
      output_layer = Linear ''output.'' 128 10 init\<rparr>"
    by (simp add: Network_def)
  then show ?thesis
    by (simp add: state_dict_obj_def state_dict_def linear_state_dict_def hidden_prefix_0_1_2)
qed

text \<open>
  Claim C5. Saving \<open>model.state_dict()\<close> to \<open>checkpoint.pth\<close> with \<open>torch.save\<close> and
  reading the file back with \<open>torch.load\<close> yields the saved dictionary: the same
  keys, which for the notebook's network are the eight names below, with the same
  tensors.
\<close>

theorem state_dict_save_load:
  assumes "Network 784 10 [512, 256, 128] init = Inr model"
  shows "torch_load ''checkpoint.pth'' (torch_save (state_dict_obj model) ''checkpoint.pth'' fs)
           = Inr (state_dict_obj model)
         \<and> dict_keys (state_dict_obj model) =
             [''hidden_layers.0.weight'', ''hidden_layers.0.bias'',
              ''hidden_layers.1.weight'', ''hidden_layers.1.bias'',
              ''hidden_layers.2.weight'', ''hidden_layers.2.bias'',
              ''output.weight'', ''output.bias'']"
  using state_dict_keys_512 [OF assms] by (simp add: torch_load_save)

text \<open>The claim at the notebook's network with every value \<open>True\<close>.\<close>

theorem state_dict_save_load_witness:
  "Network 784 10 [512, 256, 128] (constant_init True) = Inr example_model
   \<and> torch_load ''checkpoint.pth''
        (torch_save (state_dict_obj example_model) ''checkpoint.pth'' no_files)
        = Inr (state_dict_obj example_model)
   \<and> dict_keys (state_dict_obj example_model) =
        [''hidden_layers.0.weight'', ''hidden_layers.0.bias'',
         ''hidden_layers.1.weight'', ''hidden_layers.1.bias'',
         ''hidden_layers.2.weight'', ''hidden_layers.2.bias'',
         ''output.weight'', ''output.bias'']"
  using state_dict_save_load [OF Network_example, of no_files] Network_example by blast

lemma state_dict_keys:
  assumes "k \<in> fst ` set (state_dict m)"
  shows "(\<exists>j. k = hidden_prefix j @ ''weight'' \<or> k = hidden_prefix j @ ''bias'')
         \<or> k = ''output.weight'' \<or> k = ''output.bias''"
proof -
  from assms have "k \<in> fst ` set (layers_state_dict 0 (hidden_layers m))
      \<or> k \<in> fst ` set (linear_state_dict ''output.'' (output_layer m))"
    by (simp only: state_dict_def set_append image_Un Un_iff)
  then show ?thesis
  proof
    assume "k \<in> fst ` set (layers_state_dict 0 (hidden_layers m))"
    from keys_layers [OF this] show ?thesis by blast
  next
    assume "k \<in> fst ` set (linear_state_dict ''output.'' (output_layer m))"
    then show ?thesis by (simp add: keys_linear)
  qed
qed

lemma input_size_not_key: "''input_size'' \<notin> fst ` set (state_dict m)"
proof
  assume "''input_size'' \<in> fst ` set (state_dict m)"
  from state_dict_keys [OF this] show False
    by (auto simp: hidden_prefix_def)
qed

lemma getitem_state_dict_input_size:
  "getitem (state_dict_obj m) ''input_size'' = Inl (KeyError ''input_size'')"
proof -
  have "fst ` set (map (\<lambda>(k, t). (k, PyTensor t)) (state_dict m)) = fst ` set (state_dict m)"
    by (force simp: image_iff)
  then have "map_of (map (\<lambda>(k, t). (k, PyTensor t)) (state_dict m)) ''input_size'' = None"
    using input_size_not_key [of m] by (simp only: map_of_eq_None_iff not_False_eq_True)
  then show ?thesis
    by (simp add: getitem_def state_dict_obj_def)
qed

lemma load_checkpoint_bare_state_dict:
  "load_checkpoint path (torch_save (state_dict_obj m) path fs) init = Inl (KeyError ''input_size'')"
  by (simp add: load_checkpoint_def torch_load_save and_then_def getitem_state_dict_input_size)

lemma is_state_dict_obj: "is_state_dict (state_dict_obj m)"
  by (simp add: state_dict_obj_def list_all_iff case_prod_unfold)

lemma checkpoint_not_state_dict: "\<not> is_state_dict (checkpoint m)"
  by (simp add: checkpoint_def)

text \<open>
  Claim C9 as stated: every value the notebook passes to \<open>torch.save\<close> is a model
  state dictionary, and loading depends on no layout of the notebook's own. It fails:
  the second value saved is the checkpoint dictionary, and \<open>load_checkpoint\<close> on a
  file that holds a bare state dictionary raises \<open>KeyError\<close>.
\<close>

theorem saved_values_counterexample:
  "\<not> list_all is_state_dict (saved_values example_model)
   \<and> load_checkpoint ''checkpoint.pth''
        (torch_save (state_dict_obj example_model) ''checkpoint.pth'' no_files)
        (constant_init False) = Inl (KeyError ''input_size'')"
  by (simp add: saved_values_def checkpoint_not_state_dict load_checkpoint_bare_state_dict)

text \<open>
  Claim C9, amended. The state dictionary that the notebook saves is a framework
  value, but the checkpoint it saves is not: it is a dictionary of the notebook's own
  layout, with the keys \<open>input_size\<close>, \<open>output_size\<close>, \<open>hidden_layers\<close> and
  \<open>state_dict\<close>, and \<open>load_checkpoint\<close> depends on that layout: it raises
  \<open>KeyError('input_size')\<close> on a file that holds a bare state dictionary, and returns
  the model on a file that holds the checkpoint dictionary of a
  \<open>Network(784, 10, hidden_sizes)\<close>.
\<close>

theorem checkpoint_layout:
  "is_state_dict (state_dict_obj model)
   \<and> \<not> is_state_dict (checkpoint model)
   \<and> dict_keys (checkpoint model) = [''input_size'', ''output_size'', ''hidden_layers'', ''state_dict'']
   \<and> load_checkpoint filepath (torch_save (state_dict_obj model) filepath fs) init
        = Inl (KeyError ''input_size'')
   \<and> (Network 784 10 hidden_sizes init0 = Inr model \<longrightarrow>
        load_checkpoint filepath (torch_save (checkpoint model) filepath fs) init = Inr model)"
  using load_checkpoint_saved [of hidden_sizes init0 model filepath fs init]
  by (simp add: is_state_dict_obj checkpoint_not_state_dict load_checkpoint_bare_state_dict
      checkpoint_def)

text \<open>The amended claim at the notebook's network.\<close>

theorem checkpoint_layout_witness:
  "is_state_dict (state_dict_obj example_model)
   \<and> \<not> is_state_dict (checkpoint example_model)
   \<and> dict_keys (checkpoint example_model) = [''input_size'', ''output_size'', ''hidden_layers'', ''state_dict'']
   \<and> load_checkpoint ''checkpoint.pth''
        (torch_save (state_dict_obj example_model) ''checkpoint.pth'' no_files) (constant_init False)
        = Inl (KeyError ''input_size'')
   \<and> Network 784 10 [512, 256, 128] (constant_init True) = Inr example_model
   \<and> load_checkpoint ''checkpoint.pth''
        (torch_save (checkpoint example_model) ''checkpoint.pth'' no_files) (constant_init False)
        = Inr example_model"
  using checkpoint_layout [of example_model "''checkpoint.pth''" no_files "constant_init False"
      "[512, 256, 128]" "constant_init True"] Network_example
  by blast

end
